theory Spec2Isabelle
  imports Main "HOL-Library.AList" "HOL-Library.Multiset"
begin

section \<open>Strings as Python reads them\<close>

text \<open>
  A Python \<^verbatim>\<open>str\<close> is modelled as a \<^typ>\<open>string\<close>, a \<^typ>\<open>char\<close> being
  one of the code points below 256 (ASCII and Latin-1). The string methods the program
  calls are written out for these code points as Python defines them:
  \<^verbatim>\<open>str.lower\<close> maps \<^verbatim>\<open>A\<close> to \<^verbatim>\<open>Z\<close> and the Latin-1 capital letters
  (\<^verbatim>\<open>U+00C0\<close> to \<^verbatim>\<open>U+00DE\<close> without the multiplication sign \<^verbatim>\<open>U+00D7\<close>)
  to their small letters; \<^verbatim>\<open>str.isdigit\<close> holds for \<^verbatim>\<open>0\<close> to \<^verbatim>\<open>9\<close> and
  for the superscript digits \<^verbatim>\<open>U+00B2\<close>, \<^verbatim>\<open>U+00B3\<close> and \<^verbatim>\<open>U+00B9\<close>.
\<close>

definition lower_char :: "char \<Rightarrow> char" where
  "lower_char c =
     (case map_of
        (zip (''ABCDEFGHIJKLMNOPQRSTUVWXYZ''
              @ [CHR 0xC0, CHR 0xC1, CHR 0xC2, CHR 0xC3, CHR 0xC4, CHR 0xC5, CHR 0xC6, CHR 0xC7,
                 CHR 0xC8, CHR 0xC9, CHR 0xCA, CHR 0xCB, CHR 0xCC, CHR 0xCD, CHR 0xCE, CHR 0xCF,
                 CHR 0xD0, CHR 0xD1, CHR 0xD2, CHR 0xD3, CHR 0xD4, CHR 0xD5, CHR 0xD6,
                 CHR 0xD8, CHR 0xD9, CHR 0xDA, CHR 0xDB, CHR 0xDC, CHR 0xDD, CHR 0xDE])
             (''abcdefghijklmnopqrstuvwxyz''
              @ [CHR 0xE0, CHR 0xE1, CHR 0xE2, CHR 0xE3, CHR 0xE4, CHR 0xE5, CHR 0xE6, CHR 0xE7,
                 CHR 0xE8, CHR 0xE9, CHR 0xEA, CHR 0xEB, CHR 0xEC, CHR 0xED, CHR 0xEE, CHR 0xEF,
                 CHR 0xF0, CHR 0xF1, CHR 0xF2, CHR 0xF3, CHR 0xF4, CHR 0xF5, CHR 0xF6,
                 CHR 0xF8, CHR 0xF9, CHR 0xFA, CHR 0xFB, CHR 0xFC, CHR 0xFD, CHR 0xFE])) c of
        Some l \<Rightarrow> l
      | None \<Rightarrow> c)"

definition py_lower :: "string \<Rightarrow> string" where
  "py_lower s = map lower_char s"

definition isdigit :: "char \<Rightarrow> bool" where
  "isdigit c = (c \<in> set (''0123456789'' @ [CHR 0xB2, CHR 0xB3, CHR 0xB9]))"

section \<open>Rows of the survey file\<close>

text \<open>
  \<^verbatim>\<open>read_survey_file\<close> yields one dictionary per line of the csv file, keyed by
  the header columns. The columns the program reads by name are the fields of the record;
  \<open>texts\<close> holds the remaining columns (\<^verbatim>\<open>question\<close>, \<^verbatim>\<open>lang_trans1\<close>, ...) in
  file order. The columns \<^verbatim>\<open>section\<close> and \<^verbatim>\<open>random\<close> carry a suffix, both names
  being taken in Isabelle.
\<close>

record row =
  section_col :: string
  code :: string
  answer_format :: string
  condition :: string
  answer_file :: string
  other :: string
  random_col :: string
  texts :: "(string \<times> string) list"

section \<open>The grouping engine: \<^verbatim>\<open>group_likert\<close>\<close>

text \<open>
  The local variables of the generator that live across iterations. The three
  \<^verbatim>\<open>previous_*\<close> variables start as \<^verbatim>\<open>None\<close>; \<^verbatim>\<open>previous_condition\<close> is
  assigned once and never read, so it is not part of the state.
\<close>

record grouping =
  previous_answer_format :: "string option"
  previous_file_answer :: "string option"
  previous_code :: "string option"
  group_survey_q :: "row list"

text \<open>
  \<^verbatim>\<open>current_code = ''.join([i for i in q['code'] if not i.isdigit()])\<close>
\<close>

definition current_code :: "string \<Rightarrow> string" where
  "current_code c = filter (\<lambda>i. \<not> isdigit i) c"

text \<open>
  One iteration of the \<^verbatim>\<open>for q in indict\<close> loop: the groups it yields (none or one)
  and the variables after it. Every branch is the source's, in the source's order.
\<close>

definition group_likert_step :: "grouping \<Rightarrow> row \<Rightarrow> row list list \<times> grouping" where
  "group_likert_step st q =
     (let current_answer_format = py_lower (answer_format q);
          current_file_answer = answer_file q;
          current_condition = (condition q \<noteq> '''');
          g = group_survey_q st;
          (yielded, g') =
            (if current_answer_format = ''likert'' \<and> \<not> current_condition then
               (if length g > 0 then
                  (if Some current_file_answer = previous_file_answer st
                      \<or> previous_file_answer st = None then
                     (if previous_answer_format st = Some ''likert'' then ([], g)
                      else ([g], []))
                   else ([g], []))
                else ([], g))
             else if current_answer_format = ''y/n/na'' \<and> \<not> current_condition then
               (if length g > 0 then
                  (if Some (current_code (code q)) = previous_code st
                      \<or> previous_code st = None then
                     (if previous_answer_format st = Some ''y/n/na'' then ([], g)
                      else ([g], []))
                   else ([g], []))
                else ([], g))
             else
               ((if length g > 0 then [g] else []), []))
      in (yielded,
          \<lparr>previous_answer_format = Some current_answer_format,
           previous_file_answer = Some current_file_answer,
           previous_code = Some (current_code (code q)),
           group_survey_q = g' @ [q]\<rparr>))"

text \<open>
  The loop, and the \<^verbatim>\<open>yield group_survey_q\<close> that follows it. The generator is
  consumed in order and shares nothing with its consumer but the yielded lists, which it
  never touches again, so the sequence of yielded groups is a list.
\<close>

fun group_likert_loop :: "grouping \<Rightarrow> row list \<Rightarrow> row list list" where
  "group_likert_loop st [] = [group_survey_q st]"
| "group_likert_loop st (q # qs) =
     (case group_likert_step st q of
        (yielded, st') \<Rightarrow> yielded @ group_likert_loop st' qs)"

definition group_likert_init :: grouping where
  "group_likert_init =
     \<lparr>previous_answer_format = None, previous_file_answer = None,
      previous_code = None, group_survey_q = []\<rparr>"

definition group_likert :: "row list \<Rightarrow> row list list" where
  "group_likert indict = group_likert_loop group_likert_init indict"

text \<open>The four columns the grouping reads.\<close>

definition grouping_fields :: "row \<Rightarrow> string \<times> string \<times> string \<times> string" where
  "grouping_fields q = (answer_format q, condition q, answer_file q, code q)"

section \<open>More of Python's strings and integers\<close>

text \<open>
  The exceptions a run can stop with. \<open>KeyError\<close> stands for a failed lookup in a
  dictionary or in the section texts, \<open>RuntimeError\<close> is what the bare
  \<^verbatim>\<open>raise\<close> of \<^verbatim>\<open>setup_question\<close> raises, there being no active exception.
\<close>

datatype error =
  ValueError | KeyError | IndexError | UnboundLocalError | FileNotFoundError | RuntimeError

definition and_then :: "error + 'a \<Rightarrow> ('a \<Rightarrow> error + 'b) \<Rightarrow> error + 'b" where
  "and_then m f = (case m of Inl e \<Rightarrow> Inl e | Inr x \<Rightarrow> f x)"

text \<open>
  \<^verbatim>\<open>str.isspace\<close>, which is what \<^verbatim>\<open>s.strip()\<close> drops: the ASCII white space,
  the four separators \<^verbatim>\<open>U+001C\<close> to \<^verbatim>\<open>U+001F\<close>, the next-line character
  \<^verbatim>\<open>U+0085\<close> and the no-break space \<^verbatim>\<open>U+00A0\<close>.
\<close>

definition isspace :: "char \<Rightarrow> bool" where
  "isspace c =
     (c \<in> set [CHR 0x09, CHR 0x0A, CHR 0x0B, CHR 0x0C, CHR 0x0D,
                CHR 0x1C, CHR 0x1D, CHR 0x1E, CHR 0x1F, CHR 0x20, CHR 0x85, CHR 0xA0])"

text \<open>\<^verbatim>\<open>s.strip()\<close> and \<^verbatim>\<open>s.strip(chars)\<close>.\<close>

definition strip_where :: "(char \<Rightarrow> bool) \<Rightarrow> string \<Rightarrow> string" where
  "strip_where P s = rev (dropWhile P (rev (dropWhile P s)))"

definition py_strip :: "string \<Rightarrow> string" where
  "py_strip s = strip_where isspace s"

definition py_strip_chars :: "string \<Rightarrow> string \<Rightarrow> string" where
  "py_strip_chars chars s = strip_where (\<lambda>c. c \<in> set chars) s"

text \<open>\<^verbatim>\<open>sub in s\<close> for strings, and \<^verbatim>\<open>s.startswith(sub)\<close>.\<close>

definition startswith :: "string \<Rightarrow> string \<Rightarrow> bool" where
  "startswith sub s = (take (length sub) s = sub)"

fun py_in :: "string \<Rightarrow> string \<Rightarrow> bool" where
  "py_in sub [] = (sub = [])"
| "py_in sub (c # cs) = (startswith sub (c # cs) \<or> py_in sub cs)"

text \<open>
  \<^verbatim>\<open>s.split(sep)\<close> for a non-empty separator: the text is cut at every occurrence of
  \<open>sep\<close>, read from the left without overlap. \<open>k\<close> counts the characters of a
  matched separator that are still to be skipped; \<open>acc\<close> is the current piece, reversed.
\<close>

fun split_from :: "string \<Rightarrow> nat \<Rightarrow> string \<Rightarrow> string \<Rightarrow> string list" where
  "split_from sep k acc [] = [rev acc]"
| "split_from sep k acc (c # cs) =
     (if k > 0 then split_from sep (k - 1) acc cs
      else if startswith sep (c # cs) then rev acc # split_from sep (length sep - 1) [] cs
      else split_from sep 0 (c # acc) cs)"

definition py_split :: "string \<Rightarrow> string \<Rightarrow> string list" where
  "py_split sep s = split_from sep 0 [] s"

text \<open>\<^verbatim>\<open>s.replace(old, new)\<close> for a non-empty \<open>old\<close>: the pieces between
  the occurrences of \<open>old\<close>, joined by \<open>new\<close>.\<close>

fun py_join :: "string \<Rightarrow> string list \<Rightarrow> string" where
  "py_join sep [] = []"
| "py_join sep [x] = x"
| "py_join sep (x # y # ys) = x @ sep @ py_join sep (y # ys)"

definition py_replace :: "string \<Rightarrow> string \<Rightarrow> string \<Rightarrow> string" where
  "py_replace old new s = py_join new (py_split old s)"

text \<open>\<^verbatim>\<open>xs[i]\<close> for an index that is not negative.\<close>

definition py_index :: "'a list \<Rightarrow> nat \<Rightarrow> error + 'a" where
  "py_index xs i = (if i < length xs then Inr (xs ! i) else Inl IndexError)"

text \<open>\<^verbatim>\<open>str(i)\<close> for an integer: its decimal digits, after a minus sign when it is
  negative.\<close>

definition digit_char :: "nat \<Rightarrow> char" where
  "digit_char d = ''0123456789'' ! d"

function str_nat :: "nat \<Rightarrow> string" where
  "str_nat n = (if n < 10 then [digit_char n] else str_nat (n div 10) @ [digit_char (n mod 10)])"
  by pat_completeness auto
termination
  by (relation "measure id") auto

declare str_nat.simps [simp del]

definition py_str :: "int \<Rightarrow> string" where
  "py_str i = (if i < 0 then CHR ''-'' # str_nat (nat (- i)) else str_nat (nat i))"

text \<open>
  \<^verbatim>\<open>int(s)\<close> for a string. CPython first turns every white-space code point above
  127 into a blank and then reads the text as C does: the white space of C around the
  number is dropped (the separators \<^verbatim>\<open>U+001C\<close> to \<^verbatim>\<open>U+001F\<close> are not), one sign
  may come first, and the digits \<^verbatim>\<open>0\<close> to \<^verbatim>\<open>9\<close> may be separated by single
  underscores. Anything else raises ValueError, the superscript digits included, and so
  does a number of more than 4300 digits, the limit of \<^verbatim>\<open>sys.set_int_max_str_digits\<close>
  the program leaves at its default.
\<close>

definition int_space :: "char \<Rightarrow> bool" where
  "int_space c =
     (c \<in> set [CHR 0x09, CHR 0x0A, CHR 0x0B, CHR 0x0C, CHR 0x0D, CHR 0x20, CHR 0x85, CHR 0xA0])"

definition decimal_digit :: "char \<Rightarrow> bool" where
  "decimal_digit c = (c \<in> set ''0123456789'')"

definition digit_val :: "char \<Rightarrow> nat" where
  "digit_val c = (case map_of (zip ''0123456789'' [0, 1, 2, 3, 4, 5, 6, 7, 8, 9]) c of Some d \<Rightarrow> d | None \<Rightarrow> 0)"

fun digits_ok :: "bool \<Rightarrow> string \<Rightarrow> bool" where
  "digits_ok after_digit [] = after_digit"
| "digits_ok after_digit (c # cs) =
     (if decimal_digit c then digits_ok True cs
      else if c = CHR ''_'' \<and> after_digit then digits_ok False cs
      else False)"

definition nat_of_digits :: "string \<Rightarrow> nat" where
  "nat_of_digits ds = foldl (\<lambda>a c. 10 * a + digit_val c) 0 ds"

definition py_int :: "string \<Rightarrow> error + int" where
  "py_int s =
     (let t = strip_where int_space s;
          (negative, body) =
            (case t of
               [] \<Rightarrow> (False, [])
             | c # cs \<Rightarrow>
                 if c = CHR ''-'' then (True, cs)
                 else if c = CHR ''+'' then (False, cs)
                 else (False, t))
      in if digits_ok False body \<and> length (filter decimal_digit body) \<le> 4300
         then Inr ((if negative then - 1 else 1) * int (nat_of_digits (filter decimal_digit body)))
         else Inl ValueError)"

section \<open>The survey object, its configuration and its files\<close>

text \<open>
  A record of the output file is a dictionary from column names to strings. Python keeps
  the keys of a dictionary in insertion order and an assignment to an existing key keeps
  its place, which is what \<open>AList.update\<close> does on an association list.
\<close>

type_synonym dict = "(string \<times> string) list"

text \<open>\<^verbatim>\<open>d.update(e)\<close>\<close>

definition dict_update :: "dict \<Rightarrow> dict \<Rightarrow> dict" where
  "dict_update d e = foldl (\<lambda>acc (k, v). AList.update k v acc) d e"

text \<open>
  The module \<^verbatim>\<open>config.config\<close> is not part of the sources: the templates
  \<^verbatim>\<open>main_config.likert_question\<close>, ... are parameters. Each is one dictionary object,
  which the program fetches by reference and assigns into before every write, so the
  templates are part of the state and carry the assignments on to the next write.
\<close>

record main_config =
  group_format :: dict
  likert_question :: dict
  one_choice_question :: dict
  ranking_question :: dict
  multiple_choice_question :: dict
  freenumeric_question :: dict
  freetext_question :: dict
  y_n_question :: dict
  subquestion :: dict
  one_choice_answer :: dict
  multiple_choice_answer :: dict
  likert_answer :: dict
  ranking_answer :: dict

text \<open>
  What a run reads and never changes: the section texts of the project's configuration
  (\<open>None\<close> where the lookup \<^verbatim>\<open>default_row[nbr_section][lang]\<close> fails), the answer
  files under \<^verbatim>\<open>listAnswers\<close> as \<^verbatim>\<open>readlines()\<close> returns them (\<open>None\<close> where
  the file cannot be opened), the rows of the survey file, and the outcome of the
  \<open>k\<close>-th call of \<^verbatim>\<open>random.shuffle\<close>.
\<close>

record project =
  sections_txt :: "int \<Rightarrow> string \<Rightarrow> dict option"
  listAnswers :: "string \<Rightarrow> string list option"
  survey_file :: "row list"
  shuffle :: "nat \<Rightarrow> row list \<Rightarrow> row list"

text \<open>
  The output file is the list of the dictionaries written, oldest first. Each is kept
  with the call that wrote it and that call's arguments, which the file itself does not
  hold: \<open>Check_adding_section n\<close> is the header of section index \<open>n\<close>,
  \<open>Setup_question t r\<close> the question written by \<^verbatim>\<open>setup_question(t, r, ...)\<close>.
\<close>

datatype written_by =
    Check_adding_section int
  | Setup_question string row
  | Setup_subquestion string
  | Setup_answer string

record surveyCreation =
  config :: main_config
  languages :: "string list"
  code_to_multiple_question :: int
  shuffled :: nat
  outfile :: "(written_by \<times> dict) list"

text \<open>\<^verbatim>\<open>_write_row\<close>: the dictionary, as it is now, is appended to the file.\<close>

definition write_row :: "written_by \<Rightarrow> dict \<Rightarrow> surveyCreation \<Rightarrow> surveyCreation" where
  "write_row w d st = st\<lparr>outfile := outfile st @ [(w, d)]\<rparr>"

text \<open>\<^verbatim>\<open>row[key]\<close>\<close>

definition row_get :: "row \<Rightarrow> string \<Rightarrow> error + string" where
  "row_get r k =
     (case map_of ([(''section'', section_col r), (''code'', code r),
                    (''answer_format'', answer_format r), (''condition'', condition r),
                    (''answer_file'', answer_file r), (''other'', other r),
                    (''random'', random_col r)] @ texts r) k of
        None \<Rightarrow> Inl KeyError
      | Some v \<Rightarrow> Inr v)"

section \<open>The section tracker: \<^verbatim>\<open>check_adding_section\<close>\<close>

definition check_adding_section ::
  "row \<Rightarrow> int \<Rightarrow> (int \<Rightarrow> string \<Rightarrow> dict option) \<Rightarrow> string \<Rightarrow> surveyCreation
     \<Rightarrow> error + (int \<times> surveyCreation)" where
  "check_adding_section r nbr_section default_row lang st =
     and_then (py_int (section_col r)) (\<lambda>s.
       if s - 1 \<noteq> nbr_section then
         (let nbr_section' = s - 1;
              section = AList.update ''language'' lang
                          (AList.update ''type/scale'' (''G'' @ py_str nbr_section')
                             (group_format (config st)))
          in case default_row nbr_section' lang of
               None \<Rightarrow> Inl KeyError
             | Some txt \<Rightarrow>
                 (let section' = dict_update section txt
                  in Inr (nbr_section',
                          write_row (Check_adding_section nbr_section') section'
                            (st\<lparr>config := (config st)\<lparr>group_format := section'\<rparr>\<rparr>))))
       else Inr (nbr_section, st))"

section \<open>The emitters\<close>

text \<open>\<^verbatim>\<open>get_answer\<close>: the lines of the answer file, each without its last character.\<close>

definition get_answer :: "project \<Rightarrow> string \<Rightarrow> error + string list" where
  "get_answer p file_answer =
     (case listAnswers p file_answer of
        None \<Rightarrow> Inl FileNotFoundError
      | Some ls \<Rightarrow> Inr (map butlast ls))"

text \<open>The template \<^verbatim>\<open>setup_question\<close> picks, \<open>None\<close> in its \<^verbatim>\<open>else\<close> branch.\<close>

definition question_template :: "string \<Rightarrow> main_config \<Rightarrow> dict option" where
  "question_template type_question c =
     (if type_question = ''multi_likert'' then Some (likert_question c)
      else if type_question = ''one choice'' then Some (one_choice_question c)
      else if type_question = ''ranking'' then Some (ranking_question c)
      else if type_question = ''multiple choice'' then Some (multiple_choice_question c)
      else if type_question = ''freenumeric'' then Some (freenumeric_question c)
      else if type_question = ''freetext'' then Some (freetext_question c)
      else if type_question = ''likert'' then Some (likert_question c)
      else if type_question = ''y/n/na'' then Some (y_n_question c)
      else None)"

definition set_question_template :: "string \<Rightarrow> dict \<Rightarrow> main_config \<Rightarrow> main_config" where
  "set_question_template type_question d c =
     (if type_question = ''multi_likert'' then c\<lparr>likert_question := d\<rparr>
      else if type_question = ''one choice'' then c\<lparr>one_choice_question := d\<rparr>
      else if type_question = ''ranking'' then c\<lparr>ranking_question := d\<rparr>
      else if type_question = ''multiple choice'' then c\<lparr>multiple_choice_question := d\<rparr>
      else if type_question = ''freenumeric'' then c\<lparr>freenumeric_question := d\<rparr>
      else if type_question = ''freetext'' then c\<lparr>freetext_question := d\<rparr>
      else if type_question = ''likert'' then c\<lparr>likert_question := d\<rparr>
      else if type_question = ''y/n/na'' then c\<lparr>y_n_question := d\<rparr>
      else c)"

definition setup_question ::
  "string \<Rightarrow> row \<Rightarrow> string \<Rightarrow> string \<Rightarrow> surveyCreation \<Rightarrow> error + surveyCreation" where
  "setup_question type_question r txt_lang lang st =
     (case question_template type_question (config st) of
        None \<Rightarrow> Inl RuntimeError
      | Some question \<Rightarrow>
          and_then
            (if type_question = ''multi_likert'' then
               Inr (AList.update ''text'' []
                      (AList.update ''name''
                         (''likert'' @ py_str (code_to_multiple_question st)) question),
                    code_to_multiple_question st + 1)
             else
               and_then (row_get r txt_lang) (\<lambda>t.
                 Inr (AList.update ''text'' t (AList.update ''name'' (code r) question),
                      code_to_multiple_question st)))
            (\<lambda>(question1, counter).
               let question2 =
                     AList.update ''other'' (if other r = ''Y'' then ''Y'' else ''N'')
                       (AList.update ''language'' lang question1)
               in Inr (write_row (Setup_question type_question r) question2
                         (st\<lparr>config := set_question_template type_question question2 (config st),
                             code_to_multiple_question := counter\<rparr>))))"

text \<open>
  \<^verbatim>\<open>setup_subquestion\<close>: the loop over the rows of a compound likert group, the loop
  over the eight ranks, and the three \<^verbatim>\<open>if\<close>s of the function, one after the other.
  Where the caller leaves \<^verbatim>\<open>list_likert\<close> and \<^verbatim>\<open>txt_lang\<close> out, the function
  does not read them; the model passes the empty list and the empty string.
\<close>

fun subquestion_rows :: "string \<Rightarrow> string \<Rightarrow> row list \<Rightarrow> surveyCreation \<Rightarrow> error + surveyCreation" where
  "subquestion_rows lang txt_lang [] st = Inr st"
| "subquestion_rows lang txt_lang (r # rest) st =
     (case row_get r txt_lang of
        Inl e \<Rightarrow> Inl e
      | Inr t \<Rightarrow>
          (let sq = AList.update ''text'' t
                      (AList.update ''name'' (code r)
                         (AList.update ''language'' lang
                            (AList.update ''relevance'' ''1'' (subquestion (config st)))))
           in subquestion_rows lang txt_lang rest
                (write_row (Setup_subquestion ''multi_likert'') sq
                   (st\<lparr>config := (config st)\<lparr>subquestion := sq\<rparr>\<rparr>))))"

fun subquestion_ranks :: "string \<Rightarrow> int list \<Rightarrow> surveyCreation \<Rightarrow> surveyCreation" where
  "subquestion_ranks lang [] st = st"
| "subquestion_ranks lang (i # rest) st =
     (let sq = AList.update ''relevance'' ''1''
                 (AList.update ''language'' lang
                    (AList.update ''text'' (''Rank'' @ py_str i)
                       (AList.update ''name'' (py_str i) (subquestion (config st)))))
      in subquestion_ranks lang rest
           (write_row (Setup_subquestion ''ranking'') sq
              (st\<lparr>config := (config st)\<lparr>subquestion := sq\<rparr>\<rparr>)))"

definition setup_subquestion ::
  "string \<Rightarrow> string \<Rightarrow> row list \<Rightarrow> string \<Rightarrow> surveyCreation \<Rightarrow> error + surveyCreation" where
  "setup_subquestion type_question lang list_likert txt_lang st =
     and_then
       (if type_question = ''multi_likert'' then subquestion_rows lang txt_lang list_likert st
        else Inr st)
       (\<lambda>st1.
          let st2 = (if type_question = ''ranking''
                     then subquestion_ranks lang [1, 2, 3, 4, 5, 6, 7, 8] st1 else st1);
              st3 = (if type_question = ''likert'' then
                       (let sq = AList.update ''language'' lang
                                   (AList.update ''relevance'' ''1''
                                      (AList.update ''name'' ''SQ001'' (subquestion (config st2))))
                        in write_row (Setup_subquestion ''likert'') sq
                             (st2\<lparr>config := (config st2)\<lparr>subquestion := sq\<rparr>\<rparr>))
                     else st2)
          in Inr st3)"

text \<open>
  \<^verbatim>\<open>setup_answer\<close>. The template is looked up inside the loop; where none of the four
  \<^verbatim>\<open>if\<close>/\<^verbatim>\<open>elif\<close> tests holds, \<^verbatim>\<open>answer_row\<close> is not bound at its first use.
\<close>

definition answer_template :: "string \<Rightarrow> main_config \<Rightarrow> dict option" where
  "answer_template type_question c =
     (if type_question = ''one choice'' then Some (one_choice_answer c)
      else if type_question = ''multi choice'' then Some (multiple_choice_answer c)
      else if type_question = ''likert'' then Some (likert_answer c)
      else if type_question = ''ranking'' then Some (ranking_answer c)
      else None)"

definition set_answer_template :: "string \<Rightarrow> dict \<Rightarrow> main_config \<Rightarrow> main_config" where
  "set_answer_template type_question d c =
     (if type_question = ''one choice'' then c\<lparr>one_choice_answer := d\<rparr>
      else if type_question = ''multi choice'' then c\<lparr>multiple_choice_answer := d\<rparr>
      else if type_question = ''likert'' then c\<lparr>likert_answer := d\<rparr>
      else if type_question = ''ranking'' then c\<lparr>ranking_answer := d\<rparr>
      else c)"

text \<open>
  The \<^verbatim>\<open>try\<close>/\<^verbatim>\<open>except IndexError\<close> of the loop body: the field at
  \<open>index_lang\<close> of the line, or the first field when there is none; the double quotes
  (character 0x22) at both ends are stripped.
\<close>

definition answer_text :: "string \<Rightarrow> nat \<Rightarrow> error + string" where
  "answer_text text_answer index_lang =
     (case py_index (py_split '';'' text_answer) index_lang of
        Inr f \<Rightarrow> Inr (py_strip_chars [CHR 0x22] f)
      | Inl e \<Rightarrow>
          (if e = IndexError then
             and_then (py_index (py_split '';'' text_answer) 0)
               (\<lambda>f. Inr (py_strip_chars [CHR 0x22] f))
           else Inl e))"

fun setup_answer_loop ::
  "string \<Rightarrow> nat \<Rightarrow> string \<Rightarrow> int \<Rightarrow> string list \<Rightarrow> surveyCreation \<Rightarrow> error + surveyCreation" where
  "setup_answer_loop type_question index_lang lang n [] st = Inr st"
| "setup_answer_loop type_question index_lang lang n (text_answer # rest) st =
     (case answer_template type_question (config st) of
        None \<Rightarrow> Inl UnboundLocalError
      | Some answer_row \<Rightarrow>
          (case answer_text text_answer index_lang of
             Inl e \<Rightarrow> Inl e
           | Inr t \<Rightarrow>
               (let answer_row' =
                      AList.update ''language'' lang
                        (AList.update ''text'' t
                           (AList.update ''name'' (py_str n) answer_row))
                in setup_answer_loop type_question index_lang lang (n + 1) rest
                     (write_row (Setup_answer type_question) answer_row'
                        (st\<lparr>config := set_answer_template type_question answer_row' (config st)\<rparr>)))))"

definition setup_answer ::
  "project \<Rightarrow> string \<Rightarrow> row \<Rightarrow> nat \<Rightarrow> string \<Rightarrow> surveyCreation \<Rightarrow> error + surveyCreation" where
  "setup_answer p type_question r index_lang lang st =
     and_then (get_answer p (answer_file r)) (\<lambda>answers.
       setup_answer_loop type_question index_lang lang 1 answers st)"

definition get_txt_lang :: "string \<Rightarrow> nat \<Rightarrow> string" where
  "get_txt_lang lang index_lang =
     (if lang \<noteq> ''en'' then ''lang_trans'' @ py_str (int index_lang) else ''question'')"

section \<open>The condition parser: \<^verbatim>\<open>setup_condition\<close>\<close>

text \<open>
  \<open>parse_condition\<close> is the body of \<^verbatim>\<open>setup_condition\<close> with its two local
  variables \<^verbatim>\<open>element_to_compare\<close> and \<^verbatim>\<open>list_to_compare\<close> as the result
  (\<open>None\<close> when the condition has no bracket); \<^verbatim>\<open>logical_element\<close> is bound by
  neither \<^verbatim>\<open>if\<close> when the list holds no \<^verbatim>\<open>OR\<close> and no \<^verbatim>\<open>AND\<close>, and the call of
  \<^verbatim>\<open>split_list\<close> reads it. \<^verbatim>\<open>setup_condition\<close> returns nothing; what it prints
  goes to the standard output, which is not modelled.
\<close>

definition parse_condition :: "string \<Rightarrow> error + (string \<times> string list) option" where
  "parse_condition cond =
     (if py_in ''['' cond then
        and_then (py_index (py_split ''['' cond) 0) (\<lambda>element_to_compare.
        and_then (py_index (py_split ''['' cond) 1) (\<lambda>after_bracket.
          let list_to_compare = py_replace '']'' [] after_bracket;
              logical_element0 = None;
              logical_element1 =
                (if py_in ''OR'' list_to_compare then Some ''or'' else logical_element0);
              logical_element2 =
                (if py_in ''AND'' list_to_compare then Some ''and'' else logical_element1)
          in case logical_element2 of
               None \<Rightarrow> Inl UnboundLocalError
             | Some logical_element \<Rightarrow>
                 Inr (Some (py_strip (py_replace ''in'' [] element_to_compare),
                            map py_strip
                              (py_split (py_lower logical_element)
                                 (py_lower list_to_compare))))))
      else Inr None)"

definition setup_condition :: "string \<Rightarrow> error + unit" where
  "setup_condition cond = and_then (parse_condition cond) (\<lambda>_. Inr ())"

section \<open>The pipeline: \<^verbatim>\<open>create_survey_questions\<close>\<close>

text \<open>
  The body of \<^verbatim>\<open>for row in q\<close> in the branch of the groups that are not longer than
  one row: the section check, the condition parser, and the seven \<^verbatim>\<open>if\<close>s on the
  lower-cased answer format, none of which has an \<^verbatim>\<open>else\<close>.
\<close>

definition process_row ::
  "project \<Rightarrow> nat \<Rightarrow> string \<Rightarrow> string \<Rightarrow> row \<Rightarrow> int \<Rightarrow> surveyCreation
     \<Rightarrow> error + (int \<times> surveyCreation)" where
  "process_row p index_lang lang txt_lang r nbr_section st =
     and_then (check_adding_section r nbr_section (sections_txt p) lang st) (\<lambda>(nbr_section', st0).
     and_then (setup_condition (condition r)) (\<lambda>_.
     and_then
       (if py_lower (answer_format r) = ''one choice'' then
          and_then (setup_question ''one choice'' r txt_lang lang st0)
            (setup_answer p ''one choice'' r index_lang lang)
        else Inr st0) (\<lambda>st1.
     and_then
       (if py_lower (answer_format r) = ''ranking'' then
          and_then (setup_question ''ranking'' r txt_lang lang st1) (\<lambda>s.
          and_then (setup_subquestion ''ranking'' lang [] [] s)
            (setup_answer p ''ranking'' r index_lang lang))
        else Inr st1) (\<lambda>st2.
     and_then
       (if py_lower (answer_format r) = ''multiple choices'' then
          and_then (setup_question ''multiple choice'' r txt_lang lang st2)
            (setup_answer p ''multi choice'' r index_lang lang)
        else Inr st2) (\<lambda>st3.
     and_then
       (if py_lower (answer_format r) = ''freenumeric'' then
          setup_question ''freenumeric'' r txt_lang lang st3
        else Inr st3) (\<lambda>st4.
     and_then
       (if py_lower (answer_format r) = ''freetext'' then
          setup_question ''freetext'' r txt_lang lang st4
        else Inr st4) (\<lambda>st5.
     and_then
       (if py_lower (answer_format r) = ''likert'' then
          and_then (setup_question ''likert'' r txt_lang lang st5) (\<lambda>s.
          and_then (setup_subquestion ''likert'' lang [] [] s)
            (setup_answer p ''likert'' r index_lang lang))
        else Inr st5) (\<lambda>st6.
     and_then
       (if py_lower (answer_format r) = ''y/n/na'' then
          setup_question ''y/n/na'' r txt_lang lang st6
        else Inr st6) (\<lambda>st7.
     Inr (nbr_section', st7))))))))))"

fun process_rows ::
  "project \<Rightarrow> nat \<Rightarrow> string \<Rightarrow> string \<Rightarrow> row list \<Rightarrow> int \<Rightarrow> surveyCreation
     \<Rightarrow> error + (int \<times> surveyCreation)" where
  "process_rows p index_lang lang txt_lang [] nbr_section st = Inr (nbr_section, st)"
| "process_rows p index_lang lang txt_lang (r # rest) nbr_section st =
     (case process_row p index_lang lang txt_lang r nbr_section st of
        Inl e \<Rightarrow> Inl e
      | Inr (nbr_section', st') \<Rightarrow> process_rows p index_lang lang txt_lang rest nbr_section' st')"

text \<open>
  The body of \<^verbatim>\<open>for q in self.group_likert(...)\<close>. \<^verbatim>\<open>shuffle(q)\<close> reorders the
  yielded list in place; every later \<^verbatim>\<open>q[0]\<close> reads the reordered list.
\<close>

definition process_group ::
  "project \<Rightarrow> nat \<Rightarrow> string \<Rightarrow> string \<Rightarrow> row list \<Rightarrow> int \<Rightarrow> surveyCreation
     \<Rightarrow> error + (int \<times> surveyCreation)" where
  "process_group p index_lang lang txt_lang q nbr_section st =
     (if length q > 1 then
        and_then (py_index q 0) (\<lambda>q0.
        and_then (check_adding_section q0 nbr_section (sections_txt p) lang st) (\<lambda>(nbr_section', st0).
          let (q', st1) =
                (if random_col q0 = ''Y''
                 then (shuffle p (shuffled st0) q, st0\<lparr>shuffled := shuffled st0 + 1\<rparr>)
                 else (q, st0))
          in and_then (py_index q' 0) (\<lambda>q0'.
             and_then
               (if py_lower (answer_format q0') = ''likert'' then
                  and_then (setup_question ''multi_likert'' q0' txt_lang lang st1) (\<lambda>s.
                  and_then (setup_subquestion ''multi_likert'' lang q' txt_lang s)
                    (setup_answer p ''likert'' q0' index_lang lang))
                else if py_lower (answer_format q0') = ''y/n/na'' then
                  setup_question ''y/n/na'' q0' txt_lang lang st1
                else Inr st1)
               (\<lambda>st2. Inr (nbr_section', st2)))))
      else process_rows p index_lang lang txt_lang q nbr_section st)"

fun process_groups ::
  "project \<Rightarrow> nat \<Rightarrow> string \<Rightarrow> string \<Rightarrow> row list list \<Rightarrow> int \<Rightarrow> surveyCreation
     \<Rightarrow> error + (int \<times> surveyCreation)" where
  "process_groups p index_lang lang txt_lang [] nbr_section st = Inr (nbr_section, st)"
| "process_groups p index_lang lang txt_lang (q # qs) nbr_section st =
     (case process_group p index_lang lang txt_lang q nbr_section st of
        Inl e \<Rightarrow> Inl e
      | Inr (nbr_section', st') \<Rightarrow> process_groups p index_lang lang txt_lang qs nbr_section' st')"

text \<open>
  The dictionary \<^verbatim>\<open>{'section': 0}\<close> of the first section check. Its only key is
  \<^verbatim>\<open>section\<close>, the only one \<^verbatim>\<open>check_adding_section\<close> reads.
\<close>

definition first_section_row :: row where
  "first_section_row =
     \<lparr>section_col = ''0'', code = [], answer_format = [], condition = [],
      answer_file = [], other = [], random_col = [], texts = []\<rparr>"

text \<open>One language pass: the body of \<^verbatim>\<open>for index_lang, lang in enumerate(self.languages)\<close>.\<close>

definition language_pass ::
  "project \<Rightarrow> nat \<Rightarrow> string \<Rightarrow> surveyCreation \<Rightarrow> error + (int \<times> surveyCreation)" where
  "language_pass p index_lang lang st =
     (let txt_lang = get_txt_lang lang index_lang;
          nbr_section = - 1
      in and_then (check_adding_section first_section_row nbr_section (sections_txt p) lang st)
           (\<lambda>(nbr_section', st0).
              process_groups p index_lang lang txt_lang (group_likert (survey_file p))
                nbr_section' (st0\<lparr>code_to_multiple_question := 0\<rparr>)))"

fun language_loop :: "project \<Rightarrow> (nat \<times> string) list \<Rightarrow> surveyCreation \<Rightarrow> error + surveyCreation" where
  "language_loop p [] st = Inr st"
| "language_loop p ((index_lang, lang) # rest) st =
     (case language_pass p index_lang lang st of
        Inl e \<Rightarrow> Inl e
      | Inr (nbr_section, st') \<Rightarrow> language_loop p rest st')"

definition create_survey_questions :: "project \<Rightarrow> surveyCreation \<Rightarrow> error + surveyCreation" where
  "create_survey_questions p st = language_loop p (enumerate 0 (languages st)) st"

section \<open>Notions the properties are stated with\<close>

text \<open>
  The grouping invariant on the answer format: the rows of the working group all have
  the lower-cased answer format that \<^verbatim>\<open>previous_answer_format\<close> holds.
\<close>

definition format_inv :: "grouping \<Rightarrow> bool" where
  "format_inv st = (group_survey_q st = [] \<or>
      (list_all (\<lambda>r. Some (py_lower (answer_format r)) = previous_answer_format st)
         (group_survey_q st)))"

text \<open>The rows of a group all have the same lower-cased answer format.\<close>

definition same_format :: "row list \<Rightarrow> bool" where
  "same_format q =
     (\<forall>r \<in> set q. \<forall>r' \<in> set q. py_lower (answer_format r) = py_lower (answer_format r'))"

text \<open>
  The spec's reading of the code stem, written from its words: the code without the
  digits at its end.
\<close>

definition trailing_digits_stripped :: "string \<Rightarrow> string" where
  "trailing_digits_stripped c = rev (dropWhile isdigit (rev c))"

text \<open>
  The section number of a row as \<^verbatim>\<open>int(row['section'])\<close> reads it; \<open>0\<close>, which is
  no section number, where \<^verbatim>\<open>int\<close> raises.
\<close>

definition section_no :: "row \<Rightarrow> int" where
  "section_no r = (case py_int (section_col r) of Inr n \<Rightarrow> n | Inl e \<Rightarrow> 0)"

text \<open>A compound likert group: more than one row, of answer format likert.\<close>

definition compound_likert :: "row list \<Rightarrow> bool" where
  "compound_likert q = (length q > 1 \<and> py_lower (answer_format (hd q)) = ''likert'')"

text \<open>Every outcome of \<^verbatim>\<open>random.shuffle\<close> is a rearrangement of the list it is given.\<close>

definition shuffle_permutes :: "project \<Rightarrow> bool" where
  "shuffle_permutes p = (\<forall>k q. mset (shuffle p k q) = mset q)"


text \<open>
  What the properties read off the output: the section headers and the question records,
  in the order written (\<open>events\<close>); the section indices of the headers; the names of the
  header questions of the compound likert groups.
\<close>

datatype event = Header int | Quest row

fun event_of :: "written_by \<times> dict \<Rightarrow> event list" where
  "event_of (Check_adding_section n, d) = [Header n]"
| "event_of (Setup_question t r, d) = [Quest r]"
| "event_of (Setup_subquestion t, d) = []"
| "event_of (Setup_answer t, d) = []"

definition events :: "(written_by \<times> dict) list \<Rightarrow> event list" where
  "events out = concat (map event_of out)"

fun header_of :: "written_by \<times> dict \<Rightarrow> int list" where
  "header_of (Check_adding_section n, d) = [n]"
| "header_of (Setup_question t r, d) = []"
| "header_of (Setup_subquestion t, d) = []"
| "header_of (Setup_answer t, d) = []"

definition section_headers :: "(written_by \<times> dict) list \<Rightarrow> int list" where
  "section_headers out = concat (map header_of out)"

fun multi_likert_name_of :: "written_by \<times> dict \<Rightarrow> string option list" where
  "multi_likert_name_of (Check_adding_section n, d) = []"
| "multi_likert_name_of (Setup_question t r, d) =
     (if t = ''multi_likert'' then [map_of d ''name''] else [])"
| "multi_likert_name_of (Setup_subquestion t, d) = []"
| "multi_likert_name_of (Setup_answer t, d) = []"

definition multi_likert_names :: "(written_by \<times> dict) list \<Rightarrow> string option list" where
  "multi_likert_names out = concat (map multi_likert_name_of out)"

text \<open>
  Reading the records in the order written, with \<open>seen\<close> the section indices of the
  headers read so far: every question record comes after a header of the section of the
  row it was written for.
\<close>

fun headers_first :: "int list \<Rightarrow> (written_by \<times> dict) list \<Rightarrow> bool" where
  "headers_first seen [] = True"
| "headers_first seen ((Check_adding_section n, d) # out) = headers_first (n # seen) out"
| "headers_first seen ((Setup_question t r, d) # out) =
     (section_no r - 1 \<in> set seen \<and> headers_first seen out)"
| "headers_first seen ((Setup_subquestion t, d) # out) = headers_first seen out"
| "headers_first seen ((Setup_answer t, d) # out) = headers_first seen out"

fun events_ok :: "int list \<Rightarrow> event list \<Rightarrow> bool" where
  "events_ok seen [] = True"
| "events_ok seen (Header n # es) = events_ok (n # seen) es"
| "events_ok seen (Quest r # es) = (section_no r - 1 \<in> set seen \<and> events_ok seen es)"

fun event_header :: "event \<Rightarrow> int list" where
  "event_header (Header n) = [n]"
| "event_header (Quest r) = []"

text \<open>
  A step from \<open>st\<close> to \<open>st'\<close> that appends records with the events \<open>es\<close>, among them
  \<open>m\<close> header questions of compound likert groups, named with the successive values of
  the counter, and moves the counter on by \<open>m\<close>.
\<close>

definition grows :: "surveyCreation \<Rightarrow> surveyCreation \<Rightarrow> event list \<Rightarrow> nat \<Rightarrow> bool" where
  "grows st st' es m =
     (\<exists>new. outfile st' = outfile st @ new \<and> events new = es
        \<and> multi_likert_names new
            = map (\<lambda>k. Some (''likert'' @ py_str (code_to_multiple_question st + int k))) [0 ..< m]
        \<and> code_to_multiple_question st' = code_to_multiple_question st + int m)"

text \<open>
  A step that appends records among which the question records are written for the row
  \<open>r\<close>, none of them the header question of a compound likert group, and there is no
  section header.
\<close>

definition writes_for :: "row \<Rightarrow> surveyCreation \<Rightarrow> surveyCreation \<Rightarrow> bool" where
  "writes_for r st st' = (\<exists>es. list_all (\<lambda>e. e = Quest r) es \<and> grows st st' es 0)"

text \<open>Inputs of the examples: templates, a project over given rows, a survey object.\<close>

definition example_config :: main_config where
  "example_config =
     \<lparr>group_format = [(''class'', ''G'')],
      likert_question = [(''class'', ''Q''), (''type/scale'', ''F'')],
      one_choice_question = [(''class'', ''Q''), (''type/scale'', ''!'')],
      ranking_question = [(''class'', ''Q''), (''type/scale'', ''R'')],
      multiple_choice_question = [(''class'', ''Q''), (''type/scale'', ''M'')],
      freenumeric_question = [(''class'', ''Q''), (''type/scale'', ''N'')],
      freetext_question = [(''class'', ''Q''), (''type/scale'', ''T'')],
      y_n_question = [(''class'', ''Q''), (''type/scale'', ''Y'')],
      subquestion = [(''class'', ''SQ'')],
      one_choice_answer = [(''class'', ''A'')],
      multiple_choice_answer = [(''class'', ''SQ'')],
      likert_answer = [(''class'', ''A'')],
      ranking_answer = [(''class'', ''A'')]\<rparr>"

definition example_project :: "row list \<Rightarrow> project" where
  "example_project rs =
     \<lparr>sections_txt = (\<lambda>n l. Some [(''name'', ''Section'')]),
      listAnswers =
        (\<lambda>f. if f = ''A''
              then Some [''Yes;Oui'' @ [CHR 0x0A], [CHR 0x22] @ ''No'' @ [CHR 0x22, CHR 0x0A]]
              else None),
      survey_file = rs,
      shuffle = (\<lambda>k q. rev q)\<rparr>"

definition example_survey :: surveyCreation where
  "example_survey =
     \<lparr>config = example_config, languages = [''en'', ''de''],
      code_to_multiple_question = 7, shuffled = 0, outfile = []\<rparr>"

text \<open>A row of a survey file, for the examples: its text columns are made from its code.\<close>

definition survey_row :: "string \<Rightarrow> string \<Rightarrow> string \<Rightarrow> string \<Rightarrow> string \<Rightarrow> row" where
  "survey_row s c f cond file =
     \<lparr>section_col = s, code = c, answer_format = f, condition = cond, answer_file = file,
      other = ''N'', random_col = ''N'',
      texts = [(''question'', ''Question '' @ c), (''lang_trans1'', ''Frage '' @ c)]\<rparr>"

text \<open>
  The number of the group that holds the row at position \<open>i\<close> of the file, the groups
  counted from 0 in the order they are yielded.
\<close>

fun group_no :: "'a list list \<Rightarrow> nat \<Rightarrow> nat" where
  "group_no [] i = 0"
| "group_no (g # gs) i = (if i < length g then 0 else Suc (group_no gs (i - length g)))"



section \<open>Properties of the grouping engine\<close>

lemma group_likert_step_concat:
  "group_likert_step st q = (yielded, st') \<Longrightarrow>
     concat yielded @ group_survey_q st' = group_survey_q st @ [q]"
  by (auto simp: group_likert_step_def Let_def split: if_splits)

lemma group_likert_loop_concat:
  "concat (group_likert_loop st qs) = group_survey_q st @ qs"
proof (induction qs arbitrary: st)
  case Nil
  show ?case by simp
next
  case (Cons q qs)
  obtain yielded st' where step: "group_likert_step st q = (yielded, st')"
    by (cases "group_likert_step st q")
  from group_likert_step_concat [OF step] Cons.IH [of st'] step
  show ?case by simp
qed

text \<open>
  C5. The groups partition the rows: concatenated in the order they are yielded, they are
  the input row sequence, so no row is dropped, duplicated or moved.
\<close>

theorem group_likert_concat: "concat (group_likert indict) = indict"
  by (simp add: group_likert_def group_likert_loop_concat group_likert_init_def)

lemma group_likert_step_cases:
  assumes "group_likert_step st q = (yielded, st')"
  shows "previous_answer_format st' = Some (py_lower (answer_format q))"
    and "(yielded = [] \<and> group_survey_q st' = group_survey_q st @ [q]
            \<and> (group_survey_q st = []
                \<or> previous_answer_format st = Some (py_lower (answer_format q))))
         \<or> (yielded = [group_survey_q st] \<and> group_survey_q st \<noteq> []
            \<and> group_survey_q st' = [q])"
  using assms
  by (auto simp: group_likert_step_def Let_def split: if_splits)

lemma group_likert_loop_empty_group:
  "([] \<in> set (group_likert_loop st qs)) = (group_survey_q st = [] \<and> qs = [])"
proof (induction qs arbitrary: st)
  case Nil
  show ?case by auto
next
  case (Cons q qs)
  obtain yielded st' where step: "group_likert_step st q = (yielded, st')"
    by (cases "group_likert_step st q")
  from group_likert_step_cases(2) [OF step] Cons.IH [of st'] step
  show ?case by auto
qed

text \<open>A file with at least one row is never cut into an empty group.\<close>

lemma group_likert_nonempty: "indict \<noteq> [] \<Longrightarrow> [] \<notin> set (group_likert indict)"
  by (simp add: group_likert_def group_likert_loop_empty_group)

lemma format_inv_uniform:
  assumes "format_inv st" and "r \<in> set (group_survey_q st)" and "r' \<in> set (group_survey_q st)"
  shows "py_lower (answer_format r) = py_lower (answer_format r')"
proof -
  from assms have "Some (py_lower (answer_format r)) = previous_answer_format st"
    and "Some (py_lower (answer_format r')) = previous_answer_format st"
    by (auto simp: format_inv_def list_all_iff)
  then have "Some (py_lower (answer_format r)) = Some (py_lower (answer_format r'))"
    by (rule trans [OF _ sym])
  then show ?thesis by (simp only: option.inject)
qed

lemma group_likert_step_format:
  assumes step: "group_likert_step st q = (yielded, st')" and inv: "format_inv st"
  shows "format_inv st'"
    and "g \<in> set yielded \<Longrightarrow> g = group_survey_q st"
proof -
  note c = group_likert_step_cases [OF step]
  from c(2) show "format_inv st'"
  proof
    assume a: "yielded = [] \<and> group_survey_q st' = group_survey_q st @ [q]
            \<and> (group_survey_q st = []
                \<or> previous_answer_format st = Some (py_lower (answer_format q)))"
    with inv c(1) show ?thesis
      by (auto simp: format_inv_def list_all_iff)
  next
    assume "yielded = [group_survey_q st] \<and> group_survey_q st \<noteq> []
            \<and> group_survey_q st' = [q]"
    with c(1) show ?thesis by (simp add: format_inv_def)
  qed
  from c(2) show "g \<in> set yielded \<Longrightarrow> g = group_survey_q st"
    by auto
qed

lemma group_likert_loop_format:
  "format_inv st \<Longrightarrow> g \<in> set (group_likert_loop st qs) \<Longrightarrow> r \<in> set g \<Longrightarrow> r' \<in> set g \<Longrightarrow>
     py_lower (answer_format r) = py_lower (answer_format r')"
proof (induction qs arbitrary: st)
  case Nil
  then show ?case using format_inv_uniform [of st r r'] by simp
next
  case (Cons q qs)
  obtain yielded st' where step: "group_likert_step st q = (yielded, st')"
    by (cases "group_likert_step st q")
  note f = group_likert_step_format [OF step Cons.prems(1)]
  from Cons.prems(2) step have "g \<in> set yielded \<or> g \<in> set (group_likert_loop st' qs)"
    by simp
  then show ?case
  proof
    assume "g \<in> set yielded"
    then have "g = group_survey_q st" by (rule f(2))
    with Cons.prems show ?thesis using format_inv_uniform [of st r r'] by simp
  next
    assume "g \<in> set (group_likert_loop st' qs)"
    with Cons.IH [OF f(1)] Cons.prems(3,4) show ?thesis by simp
  qed
qed

text \<open>The rows of one group all have the same lower-cased answer format.\<close>

lemma group_likert_same_format:
  assumes "g \<in> set (group_likert indict)" and "r \<in> set g" and "r' \<in> set g"
  shows "py_lower (answer_format r) = py_lower (answer_format r')"
proof -
  have "format_inv group_likert_init"
    by (simp add: format_inv_def group_likert_init_def)
  from group_likert_loop_format [OF this _ assms(2,3), of indict] assms(1)
  show ?thesis by (simp add: group_likert_def)
qed

lemma group_likert_step_fields:
  assumes "grouping_fields q = grouping_fields q'"
    and "previous_answer_format st = previous_answer_format st'"
    and "previous_file_answer st = previous_file_answer st'"
    and "previous_code st = previous_code st'"
    and "map grouping_fields (group_survey_q st) = map grouping_fields (group_survey_q st')"
  shows "map (map grouping_fields) (fst (group_likert_step st q))
           = map (map grouping_fields) (fst (group_likert_step st' q'))
       \<and> previous_answer_format (snd (group_likert_step st q))
           = previous_answer_format (snd (group_likert_step st' q'))
       \<and> previous_file_answer (snd (group_likert_step st q))
           = previous_file_answer (snd (group_likert_step st' q'))
       \<and> previous_code (snd (group_likert_step st q))
           = previous_code (snd (group_likert_step st' q'))
       \<and> map grouping_fields (group_survey_q (snd (group_likert_step st q)))
           = map grouping_fields (group_survey_q (snd (group_likert_step st' q')))"
proof -
  from assms(5) have len: "length (group_survey_q st) = length (group_survey_q st')"
    by (rule map_eq_imp_length_eq)
  from assms(1) have f: "answer_format q = answer_format q'" "condition q = condition q'"
    "answer_file q = answer_file q'" "code q = code q'"
    by (simp_all add: grouping_fields_def)
  show ?thesis
    using assms(2-5) len f assms(1)
    by (simp add: group_likert_step_def Let_def)
qed

lemma group_likert_loop_fields:
  "map grouping_fields qs = map grouping_fields qs' \<Longrightarrow>
   previous_answer_format st = previous_answer_format st' \<Longrightarrow>
   previous_file_answer st = previous_file_answer st' \<Longrightarrow>
   previous_code st = previous_code st' \<Longrightarrow>
   map grouping_fields (group_survey_q st) = map grouping_fields (group_survey_q st') \<Longrightarrow>
   map (map grouping_fields) (group_likert_loop st qs)
     = map (map grouping_fields) (group_likert_loop st' qs')"
proof (induction qs arbitrary: qs' st st')
  case Nil
  then show ?case by simp
next
  case (Cons q qs)
  then obtain q' qs'' where qs': "qs' = q' # qs''" by (cases qs') auto
  with Cons.prems have hd: "grouping_fields q = grouping_fields q'"
    and tl: "map grouping_fields qs = map grouping_fields qs''" by simp_all
  note s = group_likert_step_fields [OF hd Cons.prems(2-5)]
  obtain y t where a: "group_likert_step st q = (y, t)" by (cases "group_likert_step st q")
  obtain y' t' where b: "group_likert_step st' q' = (y', t')" by (cases "group_likert_step st' q'")
  from s a b Cons.IH [OF tl, of t t'] show ?case
    by (simp add: qs')
qed

text \<open>
  C6. Grouping reads four columns only. Two row sequences that agree, row by row, on
  answer format, condition, answer file and code are cut into groups at the same
  positions: the groups have the same lengths in the same order, and agree on the four
  columns. The engine is a function of its input, so a second run, or the run of another
  language pass over the same rows, yields the same groups.
\<close>

theorem group_likert_fields_only:
  "map grouping_fields rows = map grouping_fields rows' \<Longrightarrow>
     map (map grouping_fields) (group_likert rows) = map (map grouping_fields) (group_likert rows')
   \<and> map length (group_likert rows) = map length (group_likert rows')"
proof -
  assume a: "map grouping_fields rows = map grouping_fields rows'"
  have m: "map (map grouping_fields) (group_likert rows)
             = map (map grouping_fields) (group_likert rows')"
    unfolding group_likert_def by (rule group_likert_loop_fields [OF a]) simp_all
  have l: "map length (map (map grouping_fields) xs) = map length xs" for xs :: "row list list"
    by (simp add: comp_def)
  from m have "map length (map (map grouping_fields) (group_likert rows))
      = map length (map (map grouping_fields) (group_likert rows'))"
    by (rule arg_cong)
  then have "map length (group_likert rows) = map length (group_likert rows')"
    by (simp only: l)
  with m show ?thesis by simp
qed

text \<open>
  The witness of C6: two files that differ in the section, other, random and text
  columns, and are grouped alike.
\<close>

theorem group_likert_fields_only_witness:
  "map length
     (group_likert [survey_row ''1'' ''q1'' ''likert'' '''' ''A'',
                    survey_row ''1'' ''q2'' ''likert'' '''' ''A'',
                    survey_row ''1'' ''q3'' ''freetext'' '''' ''A''])
   = map length
       (group_likert [(survey_row ''2'' ''q1'' ''likert'' '''' ''A'')\<lparr>texts := []\<rparr>,
                      (survey_row ''3'' ''q2'' ''likert'' '''' ''A'')\<lparr>other := ''Y''\<rparr>,
                      (survey_row ''4'' ''q3'' ''freetext'' '''' ''A'')\<lparr>random_col := ''Y''\<rparr>])
   \<and> survey_row ''1'' ''q1'' ''likert'' '''' ''A''
       \<noteq> (survey_row ''2'' ''q1'' ''likert'' '''' ''A'')\<lparr>texts := []\<rparr>"
  using group_likert_fields_only
    [of "[survey_row ''1'' ''q1'' ''likert'' '''' ''A'',
          survey_row ''1'' ''q2'' ''likert'' '''' ''A'',
          survey_row ''1'' ''q3'' ''freetext'' '''' ''A'']"
        "[(survey_row ''2'' ''q1'' ''likert'' '''' ''A'')\<lparr>texts := []\<rparr>,
          (survey_row ''3'' ''q2'' ''likert'' '''' ''A'')\<lparr>other := ''Y''\<rparr>,
          (survey_row ''4'' ''q3'' ''freetext'' '''' ''A'')\<lparr>random_col := ''Y''\<rparr>]"]
  by (simp add: grouping_fields_def survey_row_def)

lemmas group_likert_eval = group_likert_def group_likert_init_def group_likert_step_def
  survey_row_def py_lower_def lower_char_def current_code_def isdigit_def Let_def

text \<open>
  C1, at the input where the code departs from it. A likert row with a condition opens
  a group of its own, and the likert row after it, which has no condition and the same
  answer file, is appended to that group: \<^verbatim>\<open>previous_answer_format\<close> is
  \<^verbatim>\<open>likert\<close> and nothing records that the previous row had a condition.
\<close>

theorem conditioned_row_merged_with_next:
  "group_likert [survey_row ''1'' ''q1'' ''likert'' ''x in [1]'' ''A'',
                 survey_row ''1'' ''q2'' ''likert'' '''' ''A'']
   = [[survey_row ''1'' ''q1'' ''likert'' ''x in [1]'' ''A'',
       survey_row ''1'' ''q2'' ''likert'' '''' ''A'']]"
  by (simp add: group_likert_eval)

text \<open>
  C10, at the input where the code departs from it. For a file without rows the loop
  body never runs and the \<^verbatim>\<open>yield\<close> after the loop yields the empty working group.
\<close>

theorem group_likert_empty_input: "group_likert [] = [[]]"
  by (simp add: group_likert_def group_likert_init_def)

text \<open>
  C8 as stated fails: the stem of \<^verbatim>\<open>Q1a\<close> is \<^verbatim>\<open>Qa\<close>, the digit inside the code
  is removed too, and the y/n/na rows \<^verbatim>\<open>Q1a\<close> and \<^verbatim>\<open>Q2a\<close> are merged, which
  stems with only the digits at the end stripped would keep apart.
\<close>

theorem current_code_not_trailing:
  "current_code ''Q1a'' = ''Qa'' \<and> trailing_digits_stripped ''Q1a'' = ''Q1a''
   \<and> group_likert [survey_row ''1'' ''Q1a'' ''y/n/na'' '''' '''',
                    survey_row ''1'' ''Q2a'' ''y/n/na'' '''' '''']
     = [[survey_row ''1'' ''Q1a'' ''y/n/na'' '''' '''',
         survey_row ''1'' ''Q2a'' ''y/n/na'' '''' '''']]
   \<and> trailing_digits_stripped ''Q1a'' \<noteq> trailing_digits_stripped ''Q2a''"
  by (simp add: group_likert_eval trailing_digits_stripped_def)

lemma group_likert_loop_append:
  "\<exists>ys st'. concat ys @ group_survey_q st' = group_survey_q st @ pre
     \<and> (\<forall>rest. group_likert_loop st (pre @ rest) = ys @ group_likert_loop st' rest)"
proof (induction pre arbitrary: st)
  case Nil
  have "concat [] @ group_survey_q st = group_survey_q st @ []
     \<and> (\<forall>rest. group_likert_loop st ([] @ rest) = [] @ group_likert_loop st rest)"
    by simp
  then show ?case by blast
next
  case (Cons q pre)
  obtain y st1 where step: "group_likert_step st q = (y, st1)"
    by (cases "group_likert_step st q")
  from Cons.IH [of st1] obtain ys st' where
    c: "concat ys @ group_survey_q st' = group_survey_q st1 @ pre"
    and l: "\<And>rest. group_likert_loop st1 (pre @ rest) = ys @ group_likert_loop st' rest"
    by blast
  from group_likert_step_concat [OF step] c
  have "concat (y @ ys) @ group_survey_q st' = group_survey_q st @ q # pre"
    by simp
  moreover from step l
  have "\<forall>rest. group_likert_loop st ((q # pre) @ rest) = (y @ ys) @ group_likert_loop st' rest"
    by simp
  ultimately show ?case by blast
qed

lemma group_likert_loop_head:
  "\<exists>b gs. group_likert_loop st post = (group_survey_q st @ b) # gs"
proof (induction post arbitrary: st)
  case Nil
  show ?case by simp
next
  case (Cons q post)
  obtain y st1 where step: "group_likert_step st q = (y, st1)"
    by (cases "group_likert_step st q")
  from Cons.IH [of st1] obtain b gs where
    h: "group_likert_loop st1 post = (group_survey_q st1 @ b) # gs" by blast
  from group_likert_step_cases(2) [OF step] h step show ?case
    by auto
qed

text \<open>
  Two unconditioned y/n/na rows in a row, from any state of the loop: the first is put
  into the working group \<open>a\<close>, which is the old one or a new one, and the second joins it
  exactly when the stems are equal.
\<close>

lemma group_likert_step_pair:
  assumes f1: "py_lower (answer_format r1) = ''y/n/na''" and c1: "condition r1 = ''''"
    and f2: "py_lower (answer_format r2) = ''y/n/na''" and c2: "condition r2 = ''''"
    and s1: "group_likert_step st r1 = (y1, st1)"
    and s2: "group_likert_step st1 r2 = (y2, st2)"
  shows "\<exists>a. concat y1 @ a = group_survey_q st
     \<and> (if current_code (code r1) = current_code (code r2)
         then y2 = [] \<and> group_survey_q st2 = a @ [r1, r2]
         else y2 = [a @ [r1]] \<and> group_survey_q st2 = [r2])"
proof -
  from group_likert_step_cases(2) [OF s1] obtain a where
    a: "concat y1 @ a = group_survey_q st" and g1: "group_survey_q st1 = a @ [r1]"
    by auto
  from s1 f1 have p: "previous_code st1 = Some (current_code (code r1))"
    "previous_answer_format st1 = Some ''y/n/na''"
    by (auto simp: group_likert_step_def Let_def split: if_splits)
  from s2 f2 c2 p g1
  have "if current_code (code r1) = current_code (code r2)
        then y2 = [] \<and> group_survey_q st2 = a @ [r1, r2]
        else y2 = [a @ [r1]] \<and> group_survey_q st2 = [r2]"
    by (auto simp: group_likert_step_def Let_def split: if_splits)
  with a show ?thesis by blast
qed

lemma group_no_append:
  "group_no (ys @ gs) (length (concat ys) + i) = length ys + group_no gs i"
  by (induction ys) (simp_all add: add.assoc)

lemma group_no_pair:
  "length (concat ys) + length a = n \<Longrightarrow>
     group_no (ys @ (a @ r1 # r2 # b) # gs) n = length ys
   \<and> group_no (ys @ (a @ r1 # r2 # b) # gs) (Suc n) = length ys
   \<and> group_no (ys @ (a @ [r1]) # (r2 # b) # gs) n = length ys
   \<and> group_no (ys @ (a @ [r1]) # (r2 # b) # gs) (Suc n) = Suc (length ys)"
  using group_no_append [of ys "(a @ r1 # r2 # b) # gs" "length a"]
    group_no_append [of ys "(a @ r1 # r2 # b) # gs" "Suc (length a)"]
    group_no_append [of ys "(a @ [r1]) # (r2 # b) # gs" "length a"]
    group_no_append [of ys "(a @ [r1]) # (r2 # b) # gs" "Suc (length a)"]
  by auto

lemma group_likert_pair:
  assumes f1: "py_lower (answer_format r1) = ''y/n/na''" and c1: "condition r1 = ''''"
    and f2: "py_lower (answer_format r2) = ''y/n/na''" and c2: "condition r2 = ''''"
  shows "\<exists>ys a b gs. length (concat ys) + length a = length pre
     \<and> group_likert (pre @ r1 # r2 # post) =
         (if current_code (code r1) = current_code (code r2)
          then ys @ (a @ r1 # r2 # b) # gs
          else ys @ (a @ [r1]) # (r2 # b) # gs)"
proof -
  from group_likert_loop_append [of group_likert_init pre] obtain ys0 st where
    c: "concat ys0 @ group_survey_q st = pre"
    and l: "group_likert (pre @ r1 # r2 # post) = ys0 @ group_likert_loop st (r1 # r2 # post)"
    by (auto simp: group_likert_def group_likert_init_def)
  obtain y1 st1 where s1: "group_likert_step st r1 = (y1, st1)"
    by (cases "group_likert_step st r1")
  obtain y2 st2 where s2: "group_likert_step st1 r2 = (y2, st2)"
    by (cases "group_likert_step st1 r2")
  from group_likert_step_pair [OF f1 c1 f2 c2 s1 s2] obtain a where
    a: "concat y1 @ a = group_survey_q st"
    and p: "if current_code (code r1) = current_code (code r2)
         then y2 = [] \<and> group_survey_q st2 = a @ [r1, r2]
         else y2 = [a @ [r1]] \<and> group_survey_q st2 = [r2]"
    by blast
  from group_likert_loop_head [of st2 post] obtain b gs where
    h: "group_likert_loop st2 post = (group_survey_q st2 @ b) # gs" by blast
  from c a have len: "length (concat (ys0 @ y1)) + length a = length pre"
    by (metis append.assoc concat_append length_append)
  from l s1 s2 h have w: "group_likert (pre @ r1 # r2 # post)
      = (ys0 @ y1) @ y2 @ (group_survey_q st2 @ b) # gs"
    by simp
  show ?thesis
  proof (cases "current_code (code r1) = current_code (code r2)")
    case True
    with p w have "group_likert (pre @ r1 # r2 # post) = (ys0 @ y1) @ (a @ r1 # r2 # b) # gs"
      by simp
    with len True show ?thesis by (intro exI [of _ "ys0 @ y1"] exI [of _ a] exI [of _ b] exI [of _ gs]) simp
  next
    case False
    with p w have "group_likert (pre @ r1 # r2 # post) = (ys0 @ y1) @ (a @ [r1]) # (r2 # b) # gs"
      by simp
    with len False show ?thesis by (intro exI [of _ "ys0 @ y1"] exI [of _ a] exI [of _ b] exI [of _ gs]) simp
  qed
qed

text \<open>
  C8, amended. The code stem is the code without the characters for which
  \<^verbatim>\<open>str.isdigit\<close> holds, wherever they stand, the other characters kept in order. Two
  y/n/na rows without a condition that follow one another, anywhere in the file, are put
  into the same group exactly when these stems are equal.
\<close>

theorem code_stem_all_digits:
  assumes "py_lower (answer_format r1) = ''y/n/na''" and "condition r1 = ''''"
    and "py_lower (answer_format r2) = ''y/n/na''" and "condition r2 = ''''"
  shows "(group_no (group_likert (pre @ r1 # r2 # post)) (length pre)
            = group_no (group_likert (pre @ r1 # r2 # post)) (Suc (length pre)))
       = (filter (\<lambda>c. \<not> isdigit c) (code r1) = filter (\<lambda>c. \<not> isdigit c) (code r2))"
proof -
  from group_likert_pair [OF assms, of pre post] obtain ys a b gs where
    len: "length (concat ys) + length a = length pre"
    and g: "group_likert (pre @ r1 # r2 # post) =
         (if current_code (code r1) = current_code (code r2)
          then ys @ (a @ r1 # r2 # b) # gs
          else ys @ (a @ [r1]) # (r2 # b) # gs)"
    by blast
  note n = group_no_pair [OF len, of r1 r2 b gs]
  show ?thesis
  proof (cases "current_code (code r1) = current_code (code r2)")
    case True
    with g n show ?thesis by (simp add: current_code_def)
  next
    case False
    with g n show ?thesis by (simp add: current_code_def)
  qed
qed

text \<open>
  The witness of C8: the stems of \<^verbatim>\<open>b\<close> followed by a superscript two and of
  \<^verbatim>\<open>b2\<close> are both \<^verbatim>\<open>b\<close>, and the two rows are merged after the group of
  \<^verbatim>\<open>a1\<close> has been closed.
\<close>

theorem code_stem_all_digits_witness:
  "group_no (group_likert
      [survey_row ''1'' ''a1'' ''y/n/na'' '''' '''',
       survey_row ''1'' [CHR ''b'', CHR 0xB2] ''Y/N/NA'' '''' '''',
       survey_row ''1'' ''b2'' ''y/n/na'' '''' '''',
       survey_row ''1'' ''c'' ''y/n/na'' '''' '''']) 1
   = group_no (group_likert
      [survey_row ''1'' ''a1'' ''y/n/na'' '''' '''',
       survey_row ''1'' [CHR ''b'', CHR 0xB2] ''Y/N/NA'' '''' '''',
       survey_row ''1'' ''b2'' ''y/n/na'' '''' '''',
       survey_row ''1'' ''c'' ''y/n/na'' '''' '''']) 2
   \<and> group_likert
      [survey_row ''1'' ''a1'' ''y/n/na'' '''' '''',
       survey_row ''1'' [CHR ''b'', CHR 0xB2] ''Y/N/NA'' '''' '''',
       survey_row ''1'' ''b2'' ''y/n/na'' '''' '''',
       survey_row ''1'' ''c'' ''y/n/na'' '''' '''']
     = [[survey_row ''1'' ''a1'' ''y/n/na'' '''' ''''],
        [survey_row ''1'' [CHR ''b'', CHR 0xB2] ''Y/N/NA'' '''' '''',
         survey_row ''1'' ''b2'' ''y/n/na'' '''' ''''],
        [survey_row ''1'' ''c'' ''y/n/na'' '''' '''']]"
  using code_stem_all_digits
    [of "survey_row ''1'' [CHR ''b'', CHR 0xB2] ''Y/N/NA'' '''' ''''"
        "survey_row ''1'' ''b2'' ''y/n/na'' '''' ''''"
        "[survey_row ''1'' ''a1'' ''y/n/na'' '''' '''']"
        "[survey_row ''1'' ''c'' ''y/n/na'' '''' '''']"]
  by (simp add: group_likert_eval)

section \<open>Properties of the pipeline\<close>

text \<open>
  C3, at an input where the code departs from it. The condition \<^verbatim>\<open>x in [1]\<close> has a
  bracketed list that holds neither \<^verbatim>\<open>OR\<close> nor \<^verbatim>\<open>AND\<close>: \<^verbatim>\<open>logical_element\<close>
  is read before it is bound, the parser raises UnboundLocalError, and the run over a
  file with such a row stops with it. The same file with the condition left empty runs
  through both language passes.
\<close>

theorem setup_condition_unbound:
  "setup_condition ''x in [1]'' = Inl UnboundLocalError
   \<and> create_survey_questions
       (example_project [survey_row ''1'' ''q1'' ''freetext'' ''x in [1]'' ''''])
       example_survey
     = Inl UnboundLocalError
   \<and> map_sum id (\<lambda>s. map fst (outfile s))
       (create_survey_questions
          (example_project [survey_row ''1'' ''q1'' ''freetext'' '''' ''''])
          example_survey)
     = Inr [Check_adding_section 0,
            Setup_question ''freetext'' (survey_row ''1'' ''q1'' ''freetext'' '''' ''''),
            Check_adding_section 0,
            Setup_question ''freetext'' (survey_row ''1'' ''q1'' ''freetext'' '''' '''')]"
  by code_simp

text \<open>
  C2, at an input where the code departs from it. None of the seven \<^verbatim>\<open>if\<close>s of the
  loop over a group of one row holds for the answer format \<^verbatim>\<open>foo\<close>, and there is no
  \<^verbatim>\<open>else\<close>: the row is passed over, nothing is written for it, and the run goes on to
  the next row and the next language. The \<^verbatim>\<open>raise\<close> of \<^verbatim>\<open>setup_question\<close> for a
  type it does not know is never reached from this loop.
\<close>

theorem unknown_answer_format_skipped:
  "map_sum id (\<lambda>s. map fst (outfile s))
     (create_survey_questions
        (example_project [survey_row ''1'' ''q1'' ''foo'' '''' '''',
                          survey_row ''1'' ''q2'' ''freetext'' '''' ''''])
        example_survey)
   = Inr [Check_adding_section 0,
          Setup_question ''freetext'' (survey_row ''1'' ''q2'' ''freetext'' '''' ''''),
          Check_adding_section 0,
          Setup_question ''freetext'' (survey_row ''1'' ''q2'' ''freetext'' '''' '''')]
   \<and> setup_question ''foo'' (survey_row ''1'' ''q1'' ''foo'' '''' '''') ''question'' ''en''
       example_survey
     = Inl RuntimeError"
  by code_simp

section \<open>Properties of the answer emitter\<close>








end
